theory Spec2Isabelle
  imports Main "HOL-Library.Word" "HOL-Library.Sublist"
begin

unbundle bit_operations_syntax

section \<open>Host terms and byte strings\<close>

text \<open>
  A \<open>std::string\<close> and the bytes of a host binary are \<open>string\<close> (a list of 8-bit
  characters). A C \<open>int\<close> is a 32-bit word; \<open>-1\<close> is the word of all ones.
  \<open>ERL_NIF_TERM\<close> values are the terms below; \<open>Badarg\<close> is the value of
  \<open>enif_make_badarg\<close>, \<open>Str\<close> the value of \<open>enif_make_string\<close>, \<open>Resource a\<close> a
  resource term for the object at address \<open>a\<close>.
\<close>

type_synonym c_int = "32 word"

datatype nif_term =
    Atom string
  | Binary string
  | Str string
  | Tuple2 nif_term nif_term
  | Resource nat
  | Badarg

text \<open>\<open>std::string::find(needle)\<close>: the first position at which \<open>needle\<close> starts,
  \<open>None\<close> for \<open>npos\<close>.\<close>

fun find_str :: "string \<Rightarrow> string \<Rightarrow> nat option" where
  "find_str [] needle = (if needle = [] then Some 0 else None)"
| "find_str (c # cs) needle =
     (if prefix needle (c # cs) then Some 0 else map_option Suc (find_str cs needle))"

text \<open>\<open>std::string::find_last_of(ch)\<close>: the last position holding \<open>ch\<close>.\<close>

fun find_last_of :: "string \<Rightarrow> char \<Rightarrow> nat option" where
  "find_last_of [] ch = None"
| "find_last_of (c # cs) ch =
     (case find_last_of cs ch of
        Some i \<Rightarrow> Some (Suc i)
      | None \<Rightarrow> (if c = ch then Some 0 else None))"

section \<open>The platform\<close>

text \<open>
  The two branches of \<open>#ifdef _WIN32\<close>.
\<close>

datatype platform = POSIX | WIN32

text \<open>
  The file system maps a path to the bytes of the file there. The state a call works on
  is the file system and the list of command lines handed to \<open>popen\<close>/\<open>_popen\<close> so far.
\<close>

type_synonym filesystem = "string \<rightharpoonup> string"

record sys =
  files :: filesystem
  spawned :: "string list"

text \<open>What a pipe gives: \<open>PopenNull\<close> when \<open>popen\<close> returns \<open>NULL\<close>; otherwise the text
  the \<open>fgets\<close> loop accumulates until end of file, and the value \<open>pclose\<close> returns.\<close>

datatype pipe_result = PopenNull | Piped string c_int

text \<open>
  The primitives of the operating system and of the host runtime that the code calls are
  parameters: what \<open>mkstemp\<close> answers for a template, \<open>GetTempPathA\<close>,
  \<open>GetTempFileNameA\<close> for a directory and a prefix, whether an \<open>ofstream\<close> opens a path,
  whether the stream is still good after writing and closing, what running a command
  line gives, and whether \<open>enif_alloc_binary\<close> succeeds for a size. \<open>None\<close> stands for
  the failure value of the primitive (\<open>-1\<close>, \<open>0\<close>).
\<close>

record os =
  os_mkstemp :: "string \<Rightarrow> filesystem \<Rightarrow> string option"
  os_GetTempPathA :: "string option"
  os_GetTempFileNameA :: "string \<Rightarrow> string \<Rightarrow> filesystem \<Rightarrow> string option"
  os_ofstream_open :: "string \<Rightarrow> filesystem \<Rightarrow> bool"
  os_ofstream_good :: "string \<Rightarrow> string \<Rightarrow> bool"
  os_popen :: "string \<Rightarrow> filesystem \<Rightarrow> pipe_result"
  os_alloc_binary :: "nat \<Rightarrow> bool"

text \<open>\<open>remove(path)\<close> and \<open>DeleteFileA(path)\<close>: the entry is gone afterwards. Their
  return value is ignored by the code.\<close>

definition remove_file :: "string \<Rightarrow> sys \<Rightarrow> sys" where
  "remove_file path s = s\<lparr>files := (files s)(path := None)\<rparr>"

section \<open>Marshalling\<close>

text \<open>\<open>enif_inspect_binary\<close> succeeds on binary terms only.\<close>

fun enif_inspect_binary :: "nif_term \<Rightarrow> string option" where
  "enif_inspect_binary (Binary b) = Some b"
| "enif_inspect_binary _ = None"

definition get_binary :: "nif_term \<Rightarrow> string option" where
  "get_binary t =
     (case enif_inspect_binary t of
        None \<Rightarrow> None
      | Some bin \<Rightarrow> Some (take (length bin) bin))"

text \<open>\<open>ErlNifBinary\<close>: a size and the bytes. A fresh binary holds \<open>size\<close> bytes of
  no known content (zeros here); \<open>memcpy dst src n\<close> overwrites the first \<open>n\<close>.\<close>

record ErlNifBinary =
  bin_size :: nat
  bin_data :: string

definition enif_alloc_binary :: "os \<Rightarrow> nat \<Rightarrow> ErlNifBinary option" where
  "enif_alloc_binary w n =
     (if os_alloc_binary w n
      then Some \<lparr>bin_size = n, bin_data = replicate n (CHR 0x00)\<rparr>
      else None)"

definition memcpy :: "string \<Rightarrow> string \<Rightarrow> nat \<Rightarrow> string" where
  "memcpy dst src n = take n src @ drop n dst"

definition make_binary :: "os \<Rightarrow> string \<Rightarrow> nif_term" where
  "make_binary w str =
     (case enif_alloc_binary w (length str) of
        None \<Rightarrow> Atom ''error''
      | Some bin \<Rightarrow> Binary (memcpy (bin_data bin) str (length str)))"

section \<open>Scratch files and child processes\<close>

text \<open>
  \<open>create_temp_file\<close> (its parameters \<open>prefix\<close> and \<open>suffix\<close> are \<open>prefix_str\<close>
  and \<open>suffix_str\<close> here). On POSIX the template is handed to \<open>mkstemp\<close>, which creates
  the (empty) file it names. On Windows \<open>GetTempFileNameA\<close> creates a file, the code
  deletes it again and builds the path from its name with the extension replaced.
\<close>

definition create_temp_file ::
  "platform \<Rightarrow> os \<Rightarrow> string \<Rightarrow> string \<Rightarrow> sys \<Rightarrow> string option \<times> sys" where
  "create_temp_file pl w prefix_str suffix_str s =
     (case pl of
        WIN32 \<Rightarrow>
          (case os_GetTempPathA w of
             None \<Rightarrow> (None, s)
           | Some temp_dir \<Rightarrow>
               (case os_GetTempFileNameA w temp_dir ''CHF'' (files s) of
                  None \<Rightarrow> (None, s)
                | Some temp_file \<Rightarrow>
                    let s1 = s\<lparr>files := (files s)(temp_file \<mapsto> [])\<rparr>;
                        s2 = remove_file temp_file s1;
                        base_name =
                          (case find_last_of temp_file (CHR ''.'') of
                             Some last_dot \<Rightarrow> take last_dot temp_file
                           | None \<Rightarrow> temp_file)
                    in (Some (base_name @ suffix_str), s2)))
      | POSIX \<Rightarrow>
          (let temp_template = ''/tmp/'' @ prefix_str @ ''XXXXXX'' @ suffix_str
           in case os_mkstemp w temp_template (files s) of
                None \<Rightarrow> (None, s)
              | Some temp_path \<Rightarrow> (Some temp_path, s\<lparr>files := (files s)(temp_path \<mapsto> [])\<rparr>)))"

text \<open>\<open>WEXITSTATUS\<close> of \<open>sys/wait.h\<close>: the source says at its use that \<open>pclose\<close>
  returns the exit status in the upper 8 bits of the 16-bit status, which is the
  macro \<open>((status) & 0xff00) >> 8\<close>.\<close>

definition WEXITSTATUS :: "c_int \<Rightarrow> c_int" where
  "WEXITSTATUS status = drop_bit 8 (status AND 0xff00)"

text \<open>\<open>execute_command\<close>: \<open>None\<close> is the return value \<open>false\<close>, otherwise the captured
  output and the exit code.\<close>

definition execute_command ::
  "platform \<Rightarrow> os \<Rightarrow> string \<Rightarrow> sys \<Rightarrow> (string \<times> c_int) option \<times> sys" where
  "execute_command pl w command s =
     (let line = (case pl of
                    WIN32 \<Rightarrow> ''cmd.exe /c '' @ [CHR 0x22] @ command @ '' 2>&1'' @ [CHR 0x22]
                  | POSIX \<Rightarrow> command @ '' 2>&1'');
          s' = s\<lparr>spawned := spawned s @ [line]\<rparr>
      in case os_popen w line (files s) of
           PopenNull \<Rightarrow> (None, s')
         | Piped output status \<Rightarrow>
             if status = - 1 then (None, s')
             else (case pl of
                     WIN32 \<Rightarrow> (Some (output, status), s')
                   | POSIX \<Rightarrow> (Some (output, WEXITSTATUS status), s')))"

section \<open>The entry point \<open>solve_flatzinc\<close>\<close>

text \<open>The last step of \<open>solve_flatzinc_nif\<close>: the tagged result for an exit code and
  the captured output.\<close>

definition classify :: "os \<Rightarrow> c_int \<Rightarrow> string \<Rightarrow> nif_term" where
  "classify w exit_code output =
     (if exit_code = 0 \<or> find_str output ''=========='' \<noteq> None
      then Tuple2 (Atom ''ok'') (make_binary w output)
      else Tuple2 (Atom ''error'') (make_binary w output))"

text \<open>The command line built for a scratch path.\<close>

definition solver_command :: "platform \<Rightarrow> string \<Rightarrow> string" where
  "solver_command pl temp_file =
     (case pl of
        WIN32 \<Rightarrow> ''chuffed '' @ [CHR 0x22] @ temp_file @ [CHR 0x22]
      | POSIX \<Rightarrow> ''chuffed '' @ temp_file)"

text \<open>
  \<open>solve_flatzinc_nif\<close> on the argument vector \<open>argv\<close> (\<open>argc\<close> is its length). Opening
  the \<open>ofstream\<close> creates or truncates the file; when the stream is good after writing
  and closing, the file holds the payload. What a failed write leaves in the file is not
  modelled; the file is removed at once.
\<close>

definition solve_flatzinc_nif ::
  "platform \<Rightarrow> os \<Rightarrow> nif_term list \<Rightarrow> sys \<Rightarrow> nif_term \<times> sys" where
  "solve_flatzinc_nif pl w argv s =
     (if length argv \<noteq> 2 then (Badarg, s)
      else (case get_binary (argv ! 0) of
        None \<Rightarrow> (Tuple2 (Atom ''error'') (Atom ''invalid_flatzinc''), s)
      | Some flatzinc_content \<Rightarrow>
         (let options_json = (case get_binary (argv ! 1) of None \<Rightarrow> ''{}'' | Some b \<Rightarrow> b)
          in (case create_temp_file pl w ''chuffed_'' ''.fzn'' s of
               (None, s0) \<Rightarrow>
                 (Tuple2 (Atom ''error'') (Str ''failed_to_create_temp_file''), s0)
             | (Some temp_file, s0) \<Rightarrow>
                 (if \<not> os_ofstream_open w temp_file (files s0)
                  then (Tuple2 (Atom ''error'') (Str ''failed_to_open_temp_file''),
                        remove_file temp_file s0)
                  else
                   (let s1 = s0\<lparr>files := (files s0)(temp_file \<mapsto> [])\<rparr>
                    in (if \<not> os_ofstream_good w temp_file flatzinc_content
                      then (Tuple2 (Atom ''error'') (Str ''failed_to_write_temp_file''),
                            remove_file temp_file s1)
                      else
                       (let s2 = s1\<lparr>files := (files s1)(temp_file \<mapsto> flatzinc_content)\<rparr>;
                            command = solver_command pl temp_file
                        in (case execute_command pl w command s2 of
                             (None, s3) \<Rightarrow>
                               (Tuple2 (Atom ''error'') (Str ''failed_to_execute_chuffed''),
                                remove_file temp_file s3)
                           | (Some (output, exit_code), s3) \<Rightarrow>
                               (classify w exit_code output,
                                remove_file temp_file s3))))))))))"

section \<open>Solver handles\<close>

text \<open>
  The struct \<open>ChuffedSolver\<close>; the pointer \<open>solver\<close> is \<open>None\<close> when \<open>NULL\<close>.
  A resource of the host runtime is an object with the name of its resource type and a
  reference count; the heap maps addresses to resources. The resource type registered
  by \<open>load\<close> is named \<open>ChuffedSolver\<close>.
\<close>

record ChuffedSolver =
  solver :: "nat option"
  initialized :: bool

record resource =
  res_type :: string
  refcount :: nat
  res_obj :: ChuffedSolver

type_synonym heap = "nat \<rightharpoonup> resource"

definition chuffed_solver_type :: string where
  "chuffed_solver_type = ''ChuffedSolver''"

text \<open>\<open>chuffed_solver_destructor\<close> on the object pointer (\<open>None\<close> for \<open>NULL\<close>).\<close>

definition chuffed_solver_destructor :: "ChuffedSolver option \<Rightarrow> ChuffedSolver option" where
  "chuffed_solver_destructor obj =
     (case obj of
        None \<Rightarrow> None
      | Some slv \<Rightarrow> (if initialized slv then Some (slv\<lparr>initialized := False\<rparr>) else Some slv))"

text \<open>The reference counting of the host runtime: \<open>enif_make_resource\<close> takes a
  reference for the term, \<open>enif_release_resource\<close> gives one up; with the last reference
  the destructor runs and the object is freed.\<close>

definition enif_make_resource :: "nat \<Rightarrow> heap \<Rightarrow> heap" where
  "enif_make_resource a h =
     (case h a of
        None \<Rightarrow> h
      | Some r \<Rightarrow> h(a \<mapsto> r\<lparr>refcount := refcount r + 1\<rparr>))"

definition enif_release_resource :: "nat \<Rightarrow> heap \<Rightarrow> heap" where
  "enif_release_resource a h =
     (case h a of
        None \<Rightarrow> h
      | Some r \<Rightarrow>
          (if refcount r \<le> 1 then h(a := None)
           else h(a \<mapsto> r\<lparr>refcount := refcount r - 1\<rparr>)))"

text \<open>\<open>enif_get_resource\<close> succeeds on a resource term whose object is of the type
  asked for.\<close>

definition enif_get_resource :: "heap \<Rightarrow> nif_term \<Rightarrow> string \<Rightarrow> nat option" where
  "enif_get_resource h t ty =
     (case t of
        Resource a \<Rightarrow>
          (case h a of
             None \<Rightarrow> None
           | Some r \<Rightarrow> (if res_type r = ty then Some a else None))
      | _ \<Rightarrow> None)"

text \<open>\<open>create_solver_nif\<close>; \<open>fresh\<close> is the address \<open>enif_alloc_resource\<close> returns
  (\<open>None\<close> for \<open>NULL\<close>).\<close>

definition create_solver_nif :: "nat option \<Rightarrow> heap \<Rightarrow> nif_term list \<Rightarrow> nif_term \<times> heap" where
  "create_solver_nif fresh h argv =
     (if length argv \<noteq> 0 then (Badarg, h)
      else (case fresh of
        None \<Rightarrow> (Tuple2 (Atom ''error'') (Atom ''allocation_failed''), h)
      | Some a \<Rightarrow>
          (let h1 = h(a \<mapsto> \<lparr>res_type = chuffed_solver_type, refcount = 1,
                              res_obj = \<lparr>solver = None, initialized = False\<rparr>\<rparr>);
               h2 = enif_make_resource a h1;
               h3 = enif_release_resource a h2
           in (Tuple2 (Atom ''ok'') (Resource a), h3))))"

definition destroy_solver_nif :: "heap \<Rightarrow> nif_term list \<Rightarrow> nif_term \<times> heap" where
  "destroy_solver_nif h argv =
     (if length argv \<noteq> 1 then (Badarg, h)
      else (case enif_get_resource h (argv ! 0) chuffed_solver_type of
        None \<Rightarrow> (Tuple2 (Atom ''error'') (Atom ''invalid_resource''), h)
      | Some slv \<Rightarrow> (Atom ''ok'', h)))"

section \<open>The standalone driver\<close>

text \<open>
  Modelled from the spec: the engine's terminal-status enumeration is declared in the
  solver's headers, which are not part of the sources. The driver names \<open>RES_SAT\<close>,
  \<open>RES_LUN\<close> (local unsatisfiability) and \<open>RES_GUN\<close> (global unsatisfiability); every
  other status is \<open>RES_other\<close>.
\<close>

datatype RESULT = RES_SAT | RES_LUN | RES_GUN | RES_other nat

datatype exception = Std_exception string | Unknown_exception

text \<open>
  What the embedded solver does with a payload, from \<open>parseOptions\<close> to the return of
  \<open>engine.solve\<close>: it throws, or \<open>FlatZinc::s\<close> is left null, or the engine ends with a
  status and the text it wrote to the output stream. It is a parameter of the driver.
\<close>

datatype solver_outcome =
    Throws exception
  | Parse_null
  | Solved RESULT string

text \<open>\<open>std::getline\<close> on the rest of the input: the line without its terminator and
  what is left, \<open>None\<close> when the stream is at its end and nothing was extracted.\<close>

fun getline :: "string \<Rightarrow> (string \<times> string) option" where
  "getline [] = None"
| "getline (c # cs) =
     (if c = CHR ''\<newline>'' then Some ([], cs)
      else (case getline cs of
              None \<Rightarrow> Some ([c], [])
            | Some (line, rest) \<Rightarrow> Some (c # line, rest)))"

function read_stdin :: "string \<Rightarrow> string \<Rightarrow> string" where
  "read_stdin flatzinc_content cin =
     (case getline cin of
        None \<Rightarrow> flatzinc_content
      | Some (line, rest) \<Rightarrow> read_stdin (flatzinc_content @ line @ ''\<newline>'') rest)"
  by pat_completeness auto
termination
proof (relation "measure (\<lambda>(flatzinc_content, cin). length cin)")
  show "wf (measure (\<lambda>(flatzinc_content, cin). length cin))"
    by (rule wf_measure)
next
  fix flatzinc_content cin :: string and x2 line rest
  assume g: "getline cin = Some x2" and x: "(line, rest) = x2"
  have "getline s = Some (l, r) \<Longrightarrow> length r < length s" for s l r
    by (induction s arbitrary: l r) (auto split: if_splits option.splits)
  with g x have "length rest < length cin"
    by metis
  then show "((flatzinc_content @ line @ ''\<newline>'', rest), (flatzinc_content, cin))
               \<in> measure (\<lambda>(flatzinc_content, cin). length cin)"
    by simp
qed

text \<open>\<open>main\<close>: the bytes written to the output stream, the bytes written to the error
  stream, and the return value. \<open>std::endl\<close> writes a newline.\<close>

definition main :: "(string \<Rightarrow> solver_outcome) \<Rightarrow> string \<Rightarrow> string \<times> string \<times> int" where
  "main engine cin =
     (let content0 = read_stdin [] cin;
          flatzinc_content =
            (if content0 \<noteq> [] \<and> last content0 \<noteq> CHR ''\<newline>''
             then content0 @ ''\<newline>'' else content0)
      in if flatzinc_content = []
         then ([], ''error\<newline>No FlatZinc content provided'' @ ''\<newline>'', 1)
         else (case engine flatzinc_content of
            Throws (Std_exception what) \<Rightarrow> ([], ''error\<newline>'' @ what @ ''\<newline>'', 1)
          | Throws Unknown_exception \<Rightarrow> ([], ''error\<newline>Unknown exception'' @ ''\<newline>'', 1)
          | Parse_null \<Rightarrow> ([], ''error\<newline>Failed to parse FlatZinc problem'' @ ''\<newline>'', 1)
          | Solved status solution \<Rightarrow>
              (if status = RES_SAT then (''ok\<newline>'' @ solution, [], 0)
               else if status = RES_LUN \<or> status = RES_GUN
               then ([], ''error\<newline>UNSATISFIABLE'' @ ''\<newline>'', 1)
               else if solution = []
               then ([], ''error\<newline>No solution found'' @ ''\<newline>'', 1)
               else (''ok\<newline>'' @ solution, [], 0))))"

section \<open>Example environments\<close>

text \<open>
  A POSIX system on which \<open>mkstemp\<close> fills the template, the files open and write, the
  solver prints a solution with its terminator and exits with status 0, and binaries
  are allocated; and variations of it.
\<close>

definition sat_output :: string where
  "sat_output = ''x = 2;\<newline>----------\<newline>==========\<newline>''"

definition os_sat :: os where
  "os_sat =
     \<lparr>os_mkstemp = (\<lambda>t fs. Some ''/tmp/chuffed_k3Jx9Q.fzn''),
      os_GetTempPathA = Some ''C:/Temp/'',
      os_GetTempFileNameA = (\<lambda>dir pre fs. Some (dir @ pre @ ''1A2B.tmp'')),
      os_ofstream_open = (\<lambda>path fs. True),
      os_ofstream_good = (\<lambda>path bytes. True),
      os_popen = (\<lambda>line fs. Piped sat_output 0),
      os_alloc_binary = (\<lambda>n. True)\<rparr>"

definition sys0 :: sys where
  "sys0 = \<lparr>files = Map.empty, spawned = []\<rparr>"

definition payload0 :: string where
  "payload0 = ''var 1..3: x; constraint x = 2; solve satisfy;''"

definition scratch0 :: string where
  "scratch0 = ''/tmp/chuffed_k3Jx9Q.fzn''"

definition unsat_output :: string where
  "unsat_output = ''=====UNSATISFIABLE=====\<newline>''"

text \<open>The scratch file does not open.\<close>

definition os_no_open :: os where
  "os_no_open = os_sat\<lparr>os_ofstream_open := (\<lambda>path fs. False)\<rparr>"

text \<open>The stream is bad after writing.\<close>

definition os_no_write :: os where
  "os_no_write = os_sat\<lparr>os_ofstream_good := (\<lambda>path bytes. False)\<rparr>"

text \<open>\<open>popen\<close> returns \<open>NULL\<close>.\<close>

definition os_no_spawn :: os where
  "os_no_spawn = os_sat\<lparr>os_popen := (\<lambda>line fs. PopenNull)\<rparr>"

text \<open>The solver reports unsatisfiability and exits with code 1: \<open>pclose\<close> returns the
  status 256.\<close>

definition os_unsat :: os where
  "os_unsat = os_sat\<lparr>os_popen := (\<lambda>line fs. Piped unsat_output 256)\<rparr>"

text \<open>\<open>enif_alloc_binary\<close> fails.\<close>

definition os_no_alloc :: os where
  "os_no_alloc = os_sat\<lparr>os_alloc_binary := (\<lambda>n. False)\<rparr>"

text \<open>The solver prints a solution with its terminator and exits with code 1.\<close>

definition os_sat_exit1 :: os where
  "os_sat_exit1 = os_sat\<lparr>os_popen := (\<lambda>line fs. Piped sat_output 256)\<rparr>"

text \<open>\<open>pclose\<close> returns \<open>-1\<close>.\<close>

definition os_wait_failed :: os where
  "os_wait_failed = os_sat\<lparr>os_popen := (\<lambda>line fs. Piped [] (- 1))\<rparr>"

text \<open>A \<open>mkstemp\<close> that replaces the X characters at the end of the template only: where
  the template ends otherwise it creates the file of that very name, if there is none.\<close>

definition os_literal :: os where
  "os_literal = os_sat\<lparr>os_mkstemp := (\<lambda>t fs. if fs t = None then Some t else None)\<rparr>"

text \<open>A \<open>mkstemp\<close> that rejects a template that does not end in \<open>XXXXXX\<close>.\<close>

definition os_trailing :: os where
  "os_trailing =
     os_sat\<lparr>os_mkstemp :=
       (\<lambda>t fs. if suffix ''XXXXXX'' t then Some (take (length t - 6) t @ ''k3Jx9Q'') else None)\<rparr>"


text \<open>An options blob that asks for all solutions.\<close>

definition options1 :: string where
  "options1 = ''{'' @ [CHR 0x22] @ ''all_solutions'' @ [CHR 0x22] @ '': true}''"

text \<open>The heap after \<open>create_solver_nif\<close> has allocated at address 0 on the empty heap,
  and a heap holding a resource of another type.\<close>

definition heap1 :: heap where
  "heap1 = snd (create_solver_nif (Some 0) Map.empty [])"

definition heap_other :: heap where
  "heap_other =
     [5 \<mapsto> \<lparr>res_type = ''OtherResource'', refcount = 1,
             res_obj = \<lparr>solver = None, initialized = False\<rparr>\<rparr>]"

section \<open>Properties of the string search\<close>



section \<open>The scratch file\<close>

lemmas os_examples =
  os_sat_def os_no_open_def os_no_write_def os_no_spawn_def os_unsat_def os_no_alloc_def
  os_sat_exit1_def os_wait_failed_def os_literal_def os_trailing_def

lemma solve_files:
  assumes "create_temp_file pl w ''chuffed_'' ''.fzn'' s = (Some temp_file, s0)"
  shows "files (snd (solve_flatzinc_nif pl w [Binary payload, options] s))
           = (files s0)(temp_file := None)"
  using assms
  by (auto simp: solve_flatzinc_nif_def get_binary_def execute_command_def remove_file_def
        Let_def split: pipe_result.splits platform.splits)

lemma solve_tagged:
  "\<exists>tag body. fst (solve_flatzinc_nif pl w [Binary payload, options] s) = Tuple2 (Atom tag) body
     \<and> (tag = ''ok'' \<or> tag = ''error'')"
  by (auto simp: solve_flatzinc_nif_def get_binary_def execute_command_def classify_def
        Let_def split: pipe_result.splits platform.splits option.splits prod.splits)

lemma create_posix_example:
  assumes "os_mkstemp w = os_mkstemp os_sat"
  shows "create_temp_file POSIX w ''chuffed_'' ''.fzn'' sys0
           = (Some scratch0, sys0\<lparr>files := [scratch0 \<mapsto> []]\<rparr>)"
  using assms by (simp add: create_temp_file_def os_sat_def scratch0_def sys0_def)

lemma create_win32_example:
  "create_temp_file WIN32 os_sat ''chuffed_'' ''.fzn'' sys0 = (Some ''C:/Temp/CHF1A2B.fzn'', sys0)"
  by (simp add: create_temp_file_def os_sat_def remove_file_def sys0_def)

lemma wexit_256: "WEXITSTATUS 256 = 1"
  by (simp add: WEXITSTATUS_def)

lemma wexit_0: "WEXITSTATUS 0 = 0"
  by (simp add: WEXITSTATUS_def)

lemma no_terminator_unsat: "find_str unsat_output ''=========='' = None"
  unfolding unsat_output_def by code_simp

lemma solve_sat_posix:
  "solve_flatzinc_nif POSIX os_sat [Binary payload0, options] sys0
     = (Tuple2 (Atom ''ok'') (Binary sat_output),
        \<lparr>files = Map.empty, spawned = [''chuffed /tmp/chuffed_k3Jx9Q.fzn 2>&1'']\<rparr>)"
  by (simp add: solve_flatzinc_nif_def get_binary_def create_temp_file_def
      os_sat_def sys0_def solver_command_def execute_command_def classify_def make_binary_def
      enif_alloc_binary_def memcpy_def remove_file_def wexit_0)

lemma solve_no_open_posix:
  "solve_flatzinc_nif POSIX os_no_open [Binary payload0, options] sys0
     = (Tuple2 (Atom ''error'') (Str ''failed_to_open_temp_file''), sys0)"
  by (simp add: solve_flatzinc_nif_def get_binary_def create_temp_file_def
      os_examples sys0_def remove_file_def)

lemma solve_no_write_posix:
  "solve_flatzinc_nif POSIX os_no_write [Binary payload0, options] sys0
     = (Tuple2 (Atom ''error'') (Str ''failed_to_write_temp_file''), sys0)"
  by (simp add: solve_flatzinc_nif_def get_binary_def create_temp_file_def
      os_examples sys0_def remove_file_def)

lemma solve_no_spawn_posix:
  "solve_flatzinc_nif POSIX os_no_spawn [Binary payload0, options] sys0
     = (Tuple2 (Atom ''error'') (Str ''failed_to_execute_chuffed''),
        \<lparr>files = Map.empty, spawned = [''chuffed /tmp/chuffed_k3Jx9Q.fzn 2>&1'']\<rparr>)"
  by (simp add: solve_flatzinc_nif_def get_binary_def create_temp_file_def
      os_examples sys0_def remove_file_def solver_command_def execute_command_def)

lemma solve_unsat_posix:
  "solve_flatzinc_nif POSIX os_unsat [Binary payload0, options] sys0
     = (Tuple2 (Atom ''error'') (Binary unsat_output),
        \<lparr>files = Map.empty, spawned = [''chuffed /tmp/chuffed_k3Jx9Q.fzn 2>&1'']\<rparr>)"
  by (simp add: solve_flatzinc_nif_def get_binary_def create_temp_file_def
      os_examples sys0_def remove_file_def solver_command_def execute_command_def
      wexit_256 classify_def no_terminator_unsat make_binary_def
      enif_alloc_binary_def memcpy_def)

lemma solve_sat_win32:
  "solve_flatzinc_nif WIN32 os_sat [Binary payload0, options] sys0
     = (Tuple2 (Atom ''ok'') (Binary sat_output),
        \<lparr>files = Map.empty,
         spawned = [''cmd.exe /c '' @ [CHR 0x22] @ ''chuffed '' @ [CHR 0x22]
                      @ ''C:/Temp/CHF1A2B.fzn'' @ [CHR 0x22] @ '' 2>&1'' @ [CHR 0x22]]\<rparr>)"
  by (simp add: solve_flatzinc_nif_def get_binary_def create_temp_file_def
      os_sat_def sys0_def solver_command_def execute_command_def classify_def make_binary_def
      enif_alloc_binary_def memcpy_def remove_file_def)

lemma solve_no_alloc_posix:
  "solve_flatzinc_nif POSIX os_no_alloc [Binary payload0, options] sys0
     = (Tuple2 (Atom ''ok'') (Atom ''error''),
        \<lparr>files = Map.empty, spawned = [''chuffed /tmp/chuffed_k3Jx9Q.fzn 2>&1'']\<rparr>)"
  by (simp add: solve_flatzinc_nif_def get_binary_def create_temp_file_def
      os_examples sys0_def remove_file_def solver_command_def execute_command_def
      classify_def make_binary_def enif_alloc_binary_def wexit_0)

text \<open>
  C2. Whenever the scratch file has been created for an accepted payload, the file
  system that \<open>solve_flatzinc_nif\<close> leaves behind has no entry at the scratch path: it is
  the file system after the creation with that path removed, whichever of the results
  (success, open failure, write failure, spawn or wait failure, non-zero exit) is
  returned; and the result is a tuple tagged \<open>ok\<close> or \<open>error\<close>.
\<close>

theorem scratch_file_removed:
  assumes "create_temp_file pl w ''chuffed_'' ''.fzn'' s = (Some temp_file, s0)"
  shows "files (snd (solve_flatzinc_nif pl w [Binary payload, options] s)) temp_file = None
         \<and> files (snd (solve_flatzinc_nif pl w [Binary payload, options] s))
             = (files s0)(temp_file := None)
         \<and> (\<exists>tag body.
               fst (solve_flatzinc_nif pl w [Binary payload, options] s) = Tuple2 (Atom tag) body
               \<and> (tag = ''ok'' \<or> tag = ''error''))"
  using solve_files [OF assms] solve_tagged by simp

theorem scratch_file_removed_witness:
  "create_temp_file POSIX os_sat ''chuffed_'' ''.fzn'' sys0
     = (Some scratch0, sys0\<lparr>files := [scratch0 \<mapsto> []]\<rparr>)
   \<and> files (snd (solve_flatzinc_nif POSIX os_sat [Binary payload0, Binary ''{}''] sys0)) scratch0
       = None
   \<and> fst (solve_flatzinc_nif POSIX os_sat [Binary payload0, Binary ''{}''] sys0)
       = Tuple2 (Atom ''ok'') (Binary sat_output)
   \<and> files (snd (solve_flatzinc_nif POSIX os_no_open [Binary payload0, Binary ''{}''] sys0)) scratch0
       = None
   \<and> fst (solve_flatzinc_nif POSIX os_no_open [Binary payload0, Binary ''{}''] sys0)
       = Tuple2 (Atom ''error'') (Str ''failed_to_open_temp_file'')
   \<and> files (snd (solve_flatzinc_nif POSIX os_no_write [Binary payload0, Binary ''{}''] sys0)) scratch0
       = None
   \<and> fst (solve_flatzinc_nif POSIX os_no_write [Binary payload0, Binary ''{}''] sys0)
       = Tuple2 (Atom ''error'') (Str ''failed_to_write_temp_file'')
   \<and> files (snd (solve_flatzinc_nif POSIX os_no_spawn [Binary payload0, Binary ''{}''] sys0)) scratch0
       = None
   \<and> fst (solve_flatzinc_nif POSIX os_no_spawn [Binary payload0, Binary ''{}''] sys0)
       = Tuple2 (Atom ''error'') (Str ''failed_to_execute_chuffed'')
   \<and> files (snd (solve_flatzinc_nif POSIX os_unsat [Binary payload0, Binary ''{}''] sys0)) scratch0
       = None
   \<and> fst (solve_flatzinc_nif POSIX os_unsat [Binary payload0, Binary ''{}''] sys0)
       = Tuple2 (Atom ''error'') (Binary unsat_output)
   \<and> create_temp_file WIN32 os_sat ''chuffed_'' ''.fzn'' sys0 = (Some ''C:/Temp/CHF1A2B.fzn'', sys0)
   \<and> files (snd (solve_flatzinc_nif WIN32 os_sat [Binary payload0, Binary ''{}''] sys0))
         ''C:/Temp/CHF1A2B.fzn'' = None"
proof -
  let ?s0 = "sys0\<lparr>files := [scratch0 \<mapsto> []]\<rparr>"
  let ?opts = "Binary ''{}''"
  have 1: "create_temp_file POSIX os_sat ''chuffed_'' ''.fzn'' sys0 = (Some scratch0, ?s0)"
    by (rule create_posix_example) simp
  have 2: "create_temp_file POSIX os_no_open ''chuffed_'' ''.fzn'' sys0 = (Some scratch0, ?s0)"
    by (rule create_posix_example) (simp add: os_examples)
  have 3: "create_temp_file POSIX os_no_write ''chuffed_'' ''.fzn'' sys0 = (Some scratch0, ?s0)"
    by (rule create_posix_example) (simp add: os_examples)
  have 4: "create_temp_file POSIX os_no_spawn ''chuffed_'' ''.fzn'' sys0 = (Some scratch0, ?s0)"
    by (rule create_posix_example) (simp add: os_examples)
  have 5: "create_temp_file POSIX os_unsat ''chuffed_'' ''.fzn'' sys0 = (Some scratch0, ?s0)"
    by (rule create_posix_example) (simp add: os_examples)
  note r = scratch_file_removed [OF 1, of payload0 ?opts, THEN conjunct1]
    scratch_file_removed [OF 2, of payload0 ?opts, THEN conjunct1]
    scratch_file_removed [OF 3, of payload0 ?opts, THEN conjunct1]
    scratch_file_removed [OF 4, of payload0 ?opts, THEN conjunct1]
    scratch_file_removed [OF 5, of payload0 ?opts, THEN conjunct1]
    scratch_file_removed [OF create_win32_example, of payload0 ?opts, THEN conjunct1]
  have e: "fst (solve_flatzinc_nif POSIX os_sat [Binary payload0, ?opts] sys0)
             = Tuple2 (Atom ''ok'') (Binary sat_output)"
    "fst (solve_flatzinc_nif POSIX os_no_open [Binary payload0, ?opts] sys0)
             = Tuple2 (Atom ''error'') (Str ''failed_to_open_temp_file'')"
    "fst (solve_flatzinc_nif POSIX os_no_write [Binary payload0, ?opts] sys0)
             = Tuple2 (Atom ''error'') (Str ''failed_to_write_temp_file'')"
    "fst (solve_flatzinc_nif POSIX os_no_spawn [Binary payload0, ?opts] sys0)
             = Tuple2 (Atom ''error'') (Str ''failed_to_execute_chuffed'')"
    "fst (solve_flatzinc_nif POSIX os_unsat [Binary payload0, ?opts] sys0)
             = Tuple2 (Atom ''error'') (Binary unsat_output)"
    unfolding solve_sat_posix solve_no_open_posix solve_no_write_posix solve_no_spawn_posix
      solve_unsat_posix fst_conv by (rule refl)+
  from 1 r e create_win32_example show ?thesis
    by (intro conjI)
qed

section \<open>The result classifier\<close>








section \<open>The payload check\<close>

text \<open>
  C6. When the first argument is not inspectable as a binary, \<open>solve_flatzinc_nif\<close>
  returns \<open>{error, invalid_flatzinc}\<close> and the state is the one it was called in: no
  scratch file is created, the file system is unchanged and nothing is spawned.
\<close>

theorem invalid_flatzinc:
  assumes "enif_inspect_binary payload = None"
  shows "solve_flatzinc_nif pl w [payload, options] s
           = (Tuple2 (Atom ''error'') (Atom ''invalid_flatzinc''), s)"
  using assms by (simp add: solve_flatzinc_nif_def get_binary_def)

theorem invalid_flatzinc_witness:
  "enif_inspect_binary (Atom ''not_a_binary'') = None
   \<and> solve_flatzinc_nif POSIX os_sat [Atom ''not_a_binary'', Binary ''{}''] sys0
       = (Tuple2 (Atom ''error'') (Atom ''invalid_flatzinc''), sys0)
   \<and> files (snd (solve_flatzinc_nif POSIX os_sat [Atom ''not_a_binary'', Binary ''{}''] sys0))
       = Map.empty"
proof -
  have n: "enif_inspect_binary (Atom ''not_a_binary'') = None"
    by simp
  from invalid_flatzinc [OF n, of POSIX os_sat "Binary ''{}''" sys0] n
  show ?thesis by (simp add: sys0_def)
qed

section \<open>The options\<close>

text \<open>
  C10. For every payload and every two second arguments, \<open>solve_flatzinc_nif\<close> returns
  the same result and leaves the same state, which includes the command lines it has
  spawned: nothing it does depends on the options.
\<close>

theorem options_unused:
  "solve_flatzinc_nif pl w [payload, options_a] s = solve_flatzinc_nif pl w [payload, options_b] s"
  by (simp add: solve_flatzinc_nif_def Let_def cong: option.case_cong)

lemma create_spawned:
  "create_temp_file pl w p q s = (r, s0) \<Longrightarrow> spawned s0 = spawned s"
  by (auto simp: create_temp_file_def remove_file_def Let_def
      split: platform.splits option.splits)

text \<open>
  C5 (as amended). The options blob is read, and defaulted to \<open>{}\<close> when it is not a
  binary, but it is not passed on: when the scratch file has been created, the only
  command line \<open>solve_flatzinc_nif\<close> hands to the shell is \<open>chuffed\<close> followed by the
  scratch path (quoted on Windows) with the redirection of the error stream, and it is
  handed over exactly when the file opened and the write was good. Nothing in it comes
  from the options.
\<close>

theorem command_line_without_options:
  assumes "create_temp_file pl w ''chuffed_'' ''.fzn'' s = (Some temp_file, s0)"
  shows "spawned (snd (solve_flatzinc_nif pl w [Binary payload, options] s)) =
           (if os_ofstream_open w temp_file (files s0) \<and> os_ofstream_good w temp_file payload
            then spawned s @
              [case pl of
                 POSIX \<Rightarrow> ''chuffed '' @ temp_file @ '' 2>&1''
               | WIN32 \<Rightarrow> ''cmd.exe /c '' @ [CHR 0x22] @ ''chuffed '' @ [CHR 0x22] @ temp_file
                            @ [CHR 0x22] @ '' 2>&1'' @ [CHR 0x22]]
            else spawned s)"
  using assms create_spawned [OF assms]
  by (auto simp: solve_flatzinc_nif_def get_binary_def execute_command_def remove_file_def
        solver_command_def Let_def split: pipe_result.splits platform.splits)

theorem command_line_without_options_witness:
  "create_temp_file POSIX os_sat ''chuffed_'' ''.fzn'' sys0
     = (Some scratch0, sys0\<lparr>files := [scratch0 \<mapsto> []]\<rparr>)
   \<and> spawned (snd (solve_flatzinc_nif POSIX os_sat [Binary payload0, Binary options1] sys0))
       = [''chuffed /tmp/chuffed_k3Jx9Q.fzn 2>&1'']
   \<and> spawned (snd (solve_flatzinc_nif POSIX os_no_open [Binary payload0, Binary options1] sys0))
       = []"
proof -
  let ?s0 = "sys0\<lparr>files := [scratch0 \<mapsto> []]\<rparr>"
  have 1: "create_temp_file POSIX os_sat ''chuffed_'' ''.fzn'' sys0 = (Some scratch0, ?s0)"
    by (rule create_posix_example) simp
  have 2: "create_temp_file POSIX os_no_open ''chuffed_'' ''.fzn'' sys0 = (Some scratch0, ?s0)"
    by (rule create_posix_example) (simp add: os_examples)
  from command_line_without_options [OF 1, of payload0 "Binary options1"]
  have a: "spawned (snd (solve_flatzinc_nif POSIX os_sat [Binary payload0, Binary options1] sys0))
       = [''chuffed /tmp/chuffed_k3Jx9Q.fzn 2>&1'']"
    by (simp add: os_sat_def sys0_def scratch0_def)
  from command_line_without_options [OF 2, of payload0 "Binary options1"]
  have b: "spawned (snd (solve_flatzinc_nif POSIX os_no_open [Binary payload0, Binary options1] sys0))
       = []"
    by (simp add: os_examples sys0_def scratch0_def)
  from 1 a b show ?thesis by (intro conjI)
qed

text \<open>
  C5 as stated fails: an options blob asking for all solutions, the empty object and a
  second argument that is no binary all give the one command line, which holds the
  scratch path only.
\<close>

theorem options_do_not_reach_command_line:
  "spawned (snd (solve_flatzinc_nif POSIX os_sat [Binary payload0, Binary options1] sys0))
     = [''chuffed /tmp/chuffed_k3Jx9Q.fzn 2>&1'']
   \<and> spawned (snd (solve_flatzinc_nif POSIX os_sat [Binary payload0, Binary ''{}''] sys0))
     = [''chuffed /tmp/chuffed_k3Jx9Q.fzn 2>&1'']
   \<and> spawned (snd (solve_flatzinc_nif POSIX os_sat [Binary payload0, Atom ''not_a_binary''] sys0))
     = [''chuffed /tmp/chuffed_k3Jx9Q.fzn 2>&1'']
   \<and> spawned (snd (solve_flatzinc_nif WIN32 os_sat [Binary payload0, Binary options1] sys0))
     = spawned (snd (solve_flatzinc_nif WIN32 os_sat [Binary payload0, Binary ''{}''] sys0))"
  unfolding solve_sat_posix solve_sat_win32 by simp

section \<open>Allocation failure in the result\<close>

text \<open>
  C9. \<open>make_binary\<close> gives the binary of the string when the allocation succeeds and the
  atom \<open>error\<close> when it fails; \<open>solve_flatzinc_nif\<close> does not look at which, so with a
  solver that exits with 0 and a failed allocation the caller receives
  \<open>{ok, error}\<close>: the failure is reported under the tag \<open>ok\<close>.
\<close>

theorem allocation_failure_tagged_ok:
  "fst (solve_flatzinc_nif POSIX os_no_alloc [Binary payload0, Binary ''{}''] sys0)
     = Tuple2 (Atom ''ok'') (Atom ''error'')
   \<and> make_binary os_no_alloc sat_output = Atom ''error''
   \<and> make_binary os_sat sat_output = Binary sat_output"
  unfolding solve_no_alloc_posix
  by (simp add: make_binary_def enif_alloc_binary_def memcpy_def os_examples)

section \<open>Properties of the standalone driver\<close>

lemma getline_None: "getline cin = None \<longleftrightarrow> cin = []"
  by (cases cin) (simp_all split: option.splits)

lemma getline_Some:
  "getline cin = Some (line, rest) \<Longrightarrow>
     cin = line @ CHR ''\<newline>'' # rest
     \<or> (rest = [] \<and> cin = line \<and> line \<noteq> [] \<and> CHR ''\<newline>'' \<notin> set line)"
proof (induction cin arbitrary: line rest)
  case Nil
  then show ?case by simp
next
  case (Cons c cs)
  show ?case
  proof (cases "c = CHR ''\<newline>''")
    case True
    with Cons.prems show ?thesis by simp
  next
    case False
    show ?thesis
    proof (cases "getline cs")
      case None
      with False Cons.prems show ?thesis by (auto simp: getline_None)
    next
      case (Some lr)
      obtain l r where lr: "lr = (l, r)" by (cases lr)
      from Cons.IH [OF Some [unfolded lr]] False Cons.prems Some lr
      show ?thesis by auto
    qed
  qed
qed


lemma read_stdin_eq:
  "read_stdin acc cin =
     acc @ (if cin = [] then [] else if last cin = CHR ''\<newline>'' then cin else cin @ ''\<newline>'')"
proof (induction acc cin rule: read_stdin.induct)
  case (1 acc cin)
  show ?case
  proof (cases "getline cin")
    case None
    then show ?thesis
      by (subst read_stdin.simps) (simp add: getline_None)
  next
    case (Some lr)
    obtain line rest where lr: "lr = (line, rest)" by (cases lr)
    have ih: "read_stdin (acc @ line @ ''\<newline>'') rest =
       (acc @ line @ ''\<newline>'') @
         (if rest = [] then [] else if last rest = CHR ''\<newline>'' then rest else rest @ ''\<newline>'')"
      using "1.IH" [OF Some lr [symmetric]] .
    have step: "read_stdin acc cin = read_stdin (acc @ line @ ''\<newline>'') rest"
      by (subst read_stdin.simps) (simp add: Some lr)
    from getline_Some [OF Some [unfolded lr]] show ?thesis
    proof
      assume "cin = line @ CHR ''\<newline>'' # rest"
      then show ?thesis unfolding step ih by simp
    next
      assume a: "rest = [] \<and> cin = line \<and> line \<noteq> [] \<and> CHR ''\<newline>'' \<notin> set line"
      then have "last cin \<in> set line"
        by simp
      with a have "last cin \<noteq> CHR ''\<newline>''"
        by metis
      with a show ?thesis unfolding step ih by simp
    qed
  qed
qed

lemma submitted_payload:
  "(if read_stdin [] cin \<noteq> [] \<and> last (read_stdin [] cin) \<noteq> CHR ''\<newline>''
       then read_stdin [] cin @ ''\<newline>'' else read_stdin [] cin) =
   (if cin = [] then [] else if last cin = CHR ''\<newline>'' then cin else cin @ ''\<newline>'')"
  unfolding read_stdin_eq by simp

lemma main_empty:
  "main engine [] = ([], ''error\<newline>No FlatZinc content provided'' @ ''\<newline>'', 1)"
  unfolding main_def Let_def submitted_payload by (simp only: if_True simp_thms)

lemma main_nonempty:
  assumes "cin \<noteq> []"
  shows "main engine cin =
     (case engine (if last cin = CHR ''\<newline>'' then cin else cin @ ''\<newline>'') of
            Throws (Std_exception what) \<Rightarrow> ([], ''error\<newline>'' @ what @ ''\<newline>'', 1)
          | Throws Unknown_exception \<Rightarrow> ([], ''error\<newline>Unknown exception'' @ ''\<newline>'', 1)
          | Parse_null \<Rightarrow> ([], ''error\<newline>Failed to parse FlatZinc problem'' @ ''\<newline>'', 1)
          | Solved status solution \<Rightarrow>
              (if status = RES_SAT then (''ok\<newline>'' @ solution, [], 0)
               else if status = RES_LUN \<or> status = RES_GUN
               then ([], ''error\<newline>UNSATISFIABLE'' @ ''\<newline>'', 1)
               else if solution = []
               then ([], ''error\<newline>No solution found'' @ ''\<newline>'', 1)
               else (''ok\<newline>'' @ solution, [], 0)))"
proof -
  have ne: "(if last cin = CHR ''\<newline>'' then cin else cin @ ''\<newline>'') \<noteq> []"
    using assms by simp
  show ?thesis
    unfolding main_def Let_def submitted_payload
    using assms ne by (simp only: if_False)
qed

lemma main_exit:
  "snd (snd (main engine cin)) = 0 \<longleftrightarrow> prefix ''ok\<newline>'' (fst (main engine cin))"
  "snd (snd (main engine cin)) = 0 \<or> snd (snd (main engine cin)) = 1"
  "snd (snd (main engine cin)) = 1 \<longleftrightarrow> fst (main engine cin) = []"
  "snd (snd (main engine cin)) = 0 \<longleftrightarrow> fst (snd (main engine cin)) = []"
proof -
  show "snd (snd (main engine cin)) = 0 \<longleftrightarrow> prefix ''ok\<newline>'' (fst (main engine cin))"
    by (cases "cin = []")
      (simp_all add: main_empty main_nonempty split: solver_outcome.splits exception.splits)
  show "snd (snd (main engine cin)) = 0 \<or> snd (snd (main engine cin)) = 1"
    by (cases "cin = []")
      (simp_all add: main_empty main_nonempty split: solver_outcome.splits exception.splits)
  show "snd (snd (main engine cin)) = 1 \<longleftrightarrow> fst (main engine cin) = []"
    by (cases "cin = []")
      (simp_all add: main_empty main_nonempty split: solver_outcome.splits exception.splits)
  show "snd (snd (main engine cin)) = 0 \<longleftrightarrow> fst (snd (main engine cin)) = []"
    by (cases "cin = []")
      (simp_all add: main_empty main_nonempty split: solver_outcome.splits exception.splits)
qed

text \<open>
  C3. For every run of the driver: on empty input it writes \<open>error\<close> and
  \<open>No FlatZinc content provided\<close> to the error stream and returns 1; on non-empty input,
  with the payload terminated by a newline handed to the solver, the status \<open>RES_SAT\<close>
  gives \<open>ok\<close>, a newline and the captured output on the output stream; \<open>RES_LUN\<close> and
  \<open>RES_GUN\<close> give \<open>error\<close> and \<open>UNSATISFIABLE\<close> on the error stream; any other status
  gives \<open>error\<close> and \<open>No solution found\<close> when the captured output is empty and the
  \<open>ok\<close> block otherwise; and the return value is 0 exactly when the output stream begins
  with the \<open>ok\<close> line, and 1 otherwise.
\<close>

theorem main_spec:
  "main engine [] = ([], ''error\<newline>No FlatZinc content provided\<newline>'', 1)
   \<and> (cin \<noteq> [] \<and>
        engine (if last cin = CHR ''\<newline>'' then cin else cin @ ''\<newline>'') = Solved RES_SAT solution
        \<longrightarrow> main engine cin = (''ok\<newline>'' @ solution, [], 0))
   \<and> (cin \<noteq> [] \<and>
        engine (if last cin = CHR ''\<newline>'' then cin else cin @ ''\<newline>'') = Solved status solution
        \<and> (status = RES_LUN \<or> status = RES_GUN)
        \<longrightarrow> main engine cin = ([], ''error\<newline>UNSATISFIABLE\<newline>'', 1))
   \<and> (cin \<noteq> [] \<and>
        engine (if last cin = CHR ''\<newline>'' then cin else cin @ ''\<newline>'') = Solved (RES_other k) []
        \<longrightarrow> main engine cin = ([], ''error\<newline>No solution found\<newline>'', 1))
   \<and> (cin \<noteq> [] \<and>
        engine (if last cin = CHR ''\<newline>'' then cin else cin @ ''\<newline>'')
          = Solved (RES_other k) solution \<and> solution \<noteq> []
        \<longrightarrow> main engine cin = (''ok\<newline>'' @ solution, [], 0))
   \<and> (snd (snd (main engine cin)) = 0 \<longleftrightarrow> prefix ''ok\<newline>'' (fst (main engine cin)))
   \<and> (snd (snd (main engine cin)) = 0 \<or> snd (snd (main engine cin)) = 1)"
proof (intro conjI impI)
  show "main engine [] = ([], ''error\<newline>No FlatZinc content provided\<newline>'', 1)"
    by (simp add: main_empty)
  show "main engine cin = (''ok\<newline>'' @ solution, [], 0)"
    if "cin \<noteq> [] \<and>
        engine (if last cin = CHR ''\<newline>'' then cin else cin @ ''\<newline>'') = Solved RES_SAT solution"
    using that by (simp add: main_nonempty)
  show "main engine cin = ([], ''error\<newline>UNSATISFIABLE\<newline>'', 1)"
    if "cin \<noteq> [] \<and>
        engine (if last cin = CHR ''\<newline>'' then cin else cin @ ''\<newline>'') = Solved status solution
        \<and> (status = RES_LUN \<or> status = RES_GUN)"
    using that by (auto simp: main_nonempty)
  show "main engine cin = ([], ''error\<newline>No solution found\<newline>'', 1)"
    if "cin \<noteq> [] \<and>
        engine (if last cin = CHR ''\<newline>'' then cin else cin @ ''\<newline>'') = Solved (RES_other k) []"
    using that by (simp add: main_nonempty)
  show "main engine cin = (''ok\<newline>'' @ solution, [], 0)"
    if "cin \<noteq> [] \<and>
        engine (if last cin = CHR ''\<newline>'' then cin else cin @ ''\<newline>'')
          = Solved (RES_other k) solution \<and> solution \<noteq> []"
    using that by (simp add: main_nonempty)
  show "snd (snd (main engine cin)) = 0 \<or> snd (snd (main engine cin)) = 1"
    by (rule main_exit)
  show "snd (snd (main engine cin)) = 0 \<longleftrightarrow> prefix ''ok\<newline>'' (fst (main engine cin))"
    by (rule main_exit)
qed

theorem main_spec_witness:
  "main (\<lambda>p. Solved RES_SAT sat_output) payload0 = (''ok\<newline>'' @ sat_output, [], 0)
   \<and> main (\<lambda>p. Solved RES_LUN []) payload0 = ([], ''error\<newline>UNSATISFIABLE\<newline>'', 1)
   \<and> main (\<lambda>p. Solved RES_GUN unsat_output) payload0 = ([], ''error\<newline>UNSATISFIABLE\<newline>'', 1)
   \<and> main (\<lambda>p. Solved (RES_other 3) []) payload0 = ([], ''error\<newline>No solution found\<newline>'', 1)
   \<and> main (\<lambda>p. Solved (RES_other 3) sat_output) payload0 = (''ok\<newline>'' @ sat_output, [], 0)
   \<and> main (\<lambda>p. Solved RES_SAT sat_output) [] 
       = ([], ''error\<newline>No FlatZinc content provided\<newline>'', 1)"
proof -
  have p: "payload0 \<noteq> []"
    by (simp add: payload0_def)
  have s: "sat_output \<noteq> []"
    by (simp add: sat_output_def)
  have 1: "main (\<lambda>p. Solved RES_SAT sat_output) payload0 = (''ok\<newline>'' @ sat_output, [], 0)"
    using main_spec [of "\<lambda>p. Solved RES_SAT sat_output" payload0 sat_output] p by simp
  have 2: "main (\<lambda>p. Solved RES_LUN []) payload0 = ([], ''error\<newline>UNSATISFIABLE\<newline>'', 1)"
    using main_spec [of "\<lambda>p. Solved RES_LUN []" payload0 _ RES_LUN] p by simp
  have 3: "main (\<lambda>p. Solved RES_GUN unsat_output) payload0
             = ([], ''error\<newline>UNSATISFIABLE\<newline>'', 1)"
    using main_spec [of "\<lambda>p. Solved RES_GUN unsat_output" payload0 unsat_output RES_GUN] p
    by simp
  have 4: "main (\<lambda>p. Solved (RES_other 3) []) payload0
             = ([], ''error\<newline>No solution found\<newline>'', 1)"
    using main_spec [of "\<lambda>p. Solved (RES_other 3) []" payload0 _ _ 3] p by simp
  have 5: "main (\<lambda>p. Solved (RES_other 3) sat_output) payload0
             = (''ok\<newline>'' @ sat_output, [], 0)"
    using main_spec [of "\<lambda>p. Solved (RES_other 3) sat_output" payload0 sat_output _ 3] p s
    by simp
  have 6: "main (\<lambda>p. Solved RES_SAT sat_output) []
             = ([], ''error\<newline>No FlatZinc content provided\<newline>'', 1)"
    using main_spec [of "\<lambda>p. Solved RES_SAT sat_output"] by simp
  from 1 2 3 4 5 6 show ?thesis by (intro conjI)
qed



section \<open>The exit code\<close>









section \<open>Destroying a handle\<close>

lemma destructor_idem:
  "chuffed_solver_destructor (chuffed_solver_destructor obj) = chuffed_solver_destructor obj"
  by (simp add: chuffed_solver_destructor_def split: option.splits)

lemma destructor_clears:
  "chuffed_solver_destructor obj = Some slv \<Longrightarrow> \<not> initialized slv"
  by (auto simp: chuffed_solver_destructor_def split: option.splits if_splits)

lemma heap1_eq:
  "heap1 = [0 \<mapsto> \<lparr>res_type = ''ChuffedSolver'', refcount = 1,
                    res_obj = \<lparr>solver = None, initialized = False\<rparr>\<rparr>]"
  by (simp add: heap1_def create_solver_nif_def enif_make_resource_def
      enif_release_resource_def chuffed_solver_type_def Let_def)

lemma create_example:
  "create_solver_nif (Some 0) Map.empty [] = (Tuple2 (Atom ''ok'') (Resource 0), heap1)"
  unfolding heap1_eq
  by (simp add: create_solver_nif_def enif_make_resource_def
      enif_release_resource_def chuffed_solver_type_def Let_def)

text \<open>
  C8 (as amended). \<open>destroy_solver_nif\<close> returns \<open>{error, invalid_resource}\<close> when its
  argument is not a resource of the registered type; otherwise it returns \<open>ok\<close> and
  leaves the heap as it is: it releases nothing, the release is left to the host
  runtime, which runs the destructor. Destroying the same handle again gives the same
  result and the same heap. The destructor's cleanup is idempotent and leaves no object
  initialized.
\<close>

theorem destroy_solver_spec:
  "(enif_get_resource h t chuffed_solver_type = None \<longrightarrow>
      destroy_solver_nif h [t] = (Tuple2 (Atom ''error'') (Atom ''invalid_resource''), h))
   \<and> (enif_get_resource h t chuffed_solver_type \<noteq> None \<longrightarrow>
      destroy_solver_nif h [t] = (Atom ''ok'', h))
   \<and> destroy_solver_nif (snd (destroy_solver_nif h [t])) [t] = destroy_solver_nif h [t]
   \<and> chuffed_solver_destructor (chuffed_solver_destructor obj) = chuffed_solver_destructor obj
   \<and> (\<forall>slv. chuffed_solver_destructor obj = Some slv \<longrightarrow> \<not> initialized slv)"
proof -
  have 1: "destroy_solver_nif h [t] = (Tuple2 (Atom ''error'') (Atom ''invalid_resource''), h)"
    if "enif_get_resource h t chuffed_solver_type = None"
    using that by (simp add: destroy_solver_nif_def)
  have 2: "destroy_solver_nif h [t] = (Atom ''ok'', h)"
    if "enif_get_resource h t chuffed_solver_type \<noteq> None"
    using that by (auto simp: destroy_solver_nif_def)
  have 3: "destroy_solver_nif (snd (destroy_solver_nif h [t])) [t] = destroy_solver_nif h [t]"
    by (cases "enif_get_resource h t chuffed_solver_type = None") (simp_all add: 1 2)
  from 1 2 3 destructor_idem destructor_clears show ?thesis
    by blast
qed

theorem destroy_solver_spec_witness:
  "enif_get_resource heap1 (Resource 0) chuffed_solver_type \<noteq> None
   \<and> destroy_solver_nif heap1 [Resource 0] = (Atom ''ok'', heap1)
   \<and> enif_get_resource heap1 (Atom ''handle'') chuffed_solver_type = None
   \<and> destroy_solver_nif heap1 [Atom ''handle'']
       = (Tuple2 (Atom ''error'') (Atom ''invalid_resource''), heap1)
   \<and> enif_get_resource heap_other (Resource 5) chuffed_solver_type = None
   \<and> destroy_solver_nif heap_other [Resource 5]
       = (Tuple2 (Atom ''error'') (Atom ''invalid_resource''), heap_other)
   \<and> chuffed_solver_destructor (Some \<lparr>solver = Some 1, initialized = True\<rparr>)
       = Some \<lparr>solver = Some 1, initialized = False\<rparr>
   \<and> \<not> initialized \<lparr>solver = Some 1, initialized = False\<rparr>"
proof -
  have a: "enif_get_resource heap1 (Resource 0) chuffed_solver_type \<noteq> None"
    by (simp add: heap1_eq enif_get_resource_def chuffed_solver_type_def)
  have b: "enif_get_resource heap1 (Atom ''handle'') chuffed_solver_type = None"
    by (simp add: enif_get_resource_def)
  have c: "enif_get_resource heap_other (Resource 5) chuffed_solver_type = None"
    by (simp add: heap_other_def enif_get_resource_def chuffed_solver_type_def)
  have d: "chuffed_solver_destructor (Some \<lparr>solver = Some 1, initialized = True\<rparr>)
       = Some \<lparr>solver = Some 1, initialized = False\<rparr>"
    by (simp add: chuffed_solver_destructor_def)
  from destroy_solver_spec [of heap1 "Resource 0"] a
  have 1: "destroy_solver_nif heap1 [Resource 0] = (Atom ''ok'', heap1)"
    by blast
  from destroy_solver_spec [of heap1 "Atom ''handle''"] b
  have 2: "destroy_solver_nif heap1 [Atom ''handle'']
       = (Tuple2 (Atom ''error'') (Atom ''invalid_resource''), heap1)"
    by blast
  from destroy_solver_spec [of heap_other "Resource 5"] c
  have 3: "destroy_solver_nif heap_other [Resource 5]
       = (Tuple2 (Atom ''error'') (Atom ''invalid_resource''), heap_other)"
    by blast
  from destroy_solver_spec [of _ _ "Some \<lparr>solver = Some 1, initialized = True\<rparr>"] d
  have 4: "\<not> initialized \<lparr>solver = Some 1, initialized = False\<rparr>"
    by blast
  from a b c d 1 2 3 4 show ?thesis by (intro conjI)
qed

text \<open>
  C8 as stated fails in that the handle is not released: after \<open>create_solver_nif\<close> and
  \<open>destroy_solver_nif\<close> the object is still in the heap with the reference count 1 it
  had, where \<open>enif_release_resource\<close> would have freed it, and a second destruction
  finds the handle valid and returns \<open>ok\<close> again.
\<close>

theorem destroy_releases_nothing:
  "create_solver_nif (Some 0) Map.empty [] = (Tuple2 (Atom ''ok'') (Resource 0), heap1)
   \<and> map_option refcount (heap1 0) = Some 1
   \<and> fst (destroy_solver_nif heap1 [Resource 0]) = Atom ''ok''
   \<and> map_option refcount (snd (destroy_solver_nif heap1 [Resource 0]) 0) = Some 1
   \<and> enif_release_resource 0 heap1 0 = None
   \<and> fst (destroy_solver_nif (snd (destroy_solver_nif heap1 [Resource 0])) [Resource 0])
       = Atom ''ok''"
proof -
  have d: "destroy_solver_nif heap1 [Resource 0] = (Atom ''ok'', heap1)"
    by (simp add: destroy_solver_nif_def heap1_eq enif_get_resource_def chuffed_solver_type_def)
  show ?thesis
    unfolding d create_example
    by (simp add: d) (simp add: heap1_eq enif_release_resource_def)
qed


section \<open>The name of the scratch file\<close>







text \<open>
  Whether \<open>mkstemp\<close> accepts the template is another matter: the suffix stands after the
  X characters, and with a \<open>mkstemp\<close> that wants them at the end of the template no
  scratch file is created and every call ends in \<open>failed_to_create_temp_file\<close>.
\<close>

lemma solve_trailing_mkstemp:
  "solve_flatzinc_nif POSIX os_trailing [Binary payload, options] s
     = (Tuple2 (Atom ''error'') (Str ''failed_to_create_temp_file''), s)"
proof -
  have "\<not> suffix ''XXXXXX'' ''/tmp/chuffed_XXXXXX.fzn''"
    by code_simp
  then have "create_temp_file POSIX os_trailing ''chuffed_'' ''.fzn'' s = (None, s)"
    by (simp add: create_temp_file_def os_examples)
  then show ?thesis
    by (simp add: solve_flatzinc_nif_def get_binary_def)
qed



end
